theory Spec2Isabelle
  imports Complex_Main "HOL-Library.Char_ord" "HOL-Library.List_Lexorder" "HOL-Library.AList"
    "HOL-Library.Code_Target_Nat"
begin

section \<open>Values shared by the applications\<close>

text \<open>
  Money columns are Django \<open>DecimalField\<close>s and the views compute on Python
  \<open>Decimal\<close>s; a decimal is an exact rational, so amounts are \<open>rat\<close> here. An
  instance holds the value the code computed; a \<open>DecimalField\<close> column holds it rounded
  to the column's decimal places. \<open>create_sale\<close> writes its line items and then computes
  the totals from the rows it reads back, so the rows of \<open>SaleItem\<close> are stored rounded
  (\<open>format_number\<close> below). The rows of the other models keep the values of the instance
  that was saved. Row ids, user ids and clock readings are natural numbers, dates are day
  numbers. The tables of the database are the fields of one record \<open>db\<close>; a method that
  saves a model instance returns the updated \<open>db\<close>. A raised exception is a value
  \<open>Inl e\<close>. Field names carry a prefix naming their model, because several models
  share names such as \<open>amount\<close>, \<open>discount\<close> or \<open>is_active\<close>.
\<close>

datatype error =
    ValueError string
  | DoesNotExist
  | MultipleObjectsReturned
  | DatabaseError
  | IntegrityError
  | TypeError
  | InvalidOperation

subsection \<open>catalog/models.py: Product, InventoryAdjustment\<close>

record product =
  p_sku :: string
  p_sell_price :: rat
  p_wholesale_price :: "rat option"
  p_minimum_wholesale_quantity :: nat
  p_tax_rate :: rat
  p_stock :: int
  p_is_active :: bool
  p_track_stock :: bool

record inventory_adjustment =
  ia_product :: nat
  ia_quantity_change :: int
  ia_old_stock :: int
  ia_new_stock :: int
  ia_reason :: string
  ia_performed_by :: "nat option"

subsection \<open>customers/models.py: Customer\<close>

datatype customer_type = Retail | Wholesale | Vip

record customer =
  c_name :: string
  c_email :: string
  c_phone :: string
  c_customer_type :: customer_type
  c_discount_percentage :: rat
  c_current_balance :: rat
  c_is_active :: bool

subsection \<open>pos/models.py: Sale, SaleItem, Payment\<close>

datatype sale_status = Pending | Completed | Voided | Refunded

datatype payment_status = PaymentPending | Partial | Paid

datatype payment_state = PayPending | PayCompleted | PayFailed | PayRefunded

record sale =
  s_cashier :: nat
  s_customer :: "nat option"
  s_subtotal :: rat
  s_tax :: rat
  s_discount :: rat
  s_total :: rat
  s_payment_status :: payment_status
  s_amount_paid :: rat
  s_status :: sale_status
  s_notes :: string
  s_terminal_id :: string
  s_completed_at :: "nat option"
  s_voided_at :: "nat option"
  s_voided_by :: "nat option"
  s_void_reason :: string

record sale_item =
  si_sale :: nat
  si_product :: nat
  si_quantity :: nat
  si_unit_price :: rat
  si_tax_rate :: rat
  si_discount :: rat
  si_line_total :: rat

record payment =
  pay_sale :: "nat option"
  pay_amount :: rat
  pay_method :: string
  pay_status :: payment_state
  pay_amount_tendered :: "rat option"
  pay_change_amount :: "rat option"

subsection \<open>wholesale/models.py: Invoice, InvoicePayment\<close>

text \<open>
  An instance that was never saved has the empty \<open>invoice_number\<close> and may have no
  \<open>due_date\<close>; \<open>Invoice.save\<close> fills both in.
\<close>

record invoice =
  inv_invoice_number :: string
  inv_customer :: nat
  inv_sale :: "nat option"
  inv_issue_date :: int
  inv_due_date :: "int option"
  inv_payment_terms :: string
  inv_total_amount :: rat
  inv_amount_paid :: rat
  inv_payment_status :: string

record invoice_payment =
  ip_invoice :: nat
  ip_payment :: nat
  ip_amount :: rat
  ip_notes :: string
  ip_recorded_by :: nat

subsection \<open>The database\<close>

text \<open>
  Tables that the code only reads by primary key are maps from the id; tables it filters
  or aggregates are lists in insertion order, which is the \<open>ordering = ['id']\<close> of
  \<open>SaleItem\<close>. The counters are the auto-increment sequences.
\<close>

record db =
  products :: "nat \<rightharpoonup> product"
  adjustments :: "inventory_adjustment list"
  customers :: "(nat \<times> customer) list"
  next_customer_id :: nat
  sales :: "nat \<rightharpoonup> sale"
  next_sale_id :: nat
  sale_items :: "sale_item list"
  payments :: "(nat \<times> payment) list"
  next_payment_id :: nat
  invoices :: "(nat \<times> invoice) list"
  next_invoice_id :: nat
  invoice_payments :: "invoice_payment list"

record user =
  u_id :: nat
  u_terminal_id :: string

subsection \<open>Writing a decimal column\<close>

text \<open>
  \<open>Decimal.quantize\<close> to \<open>places\<close> decimal places in the default context, which
  rounds to the nearest value and a tie to the even digit.
\<close>

definition quantize :: "nat \<Rightarrow> rat \<Rightarrow> rat" where
  "quantize places x =
     (let scaled = x * 10 ^ places;
          low = \<lfloor>scaled\<rfloor>;
          rest = scaled - of_int low;
          nearest = (if rest < 1 / 2 then low
                     else if 1 / 2 < rest then low + 1
                     else if even low then low else low + 1)
      in of_int nearest / 10 ^ places)"

text \<open>
  What Django's \<open>format_number(value, max_digits, decimal_places)\<close> makes of the value of
  a \<open>DecimalField(max_digits, decimal_places)\<close> when the row is written: the value
  quantized to the column's places, or \<open>InvalidOperation\<close> when the result has more than
  \<open>max_digits\<close> digits.
\<close>

definition format_number :: "nat \<Rightarrow> nat \<Rightarrow> rat \<Rightarrow> error + rat" where
  "format_number max_digits decimal_places x =
     (let y = quantize decimal_places x in
      if 10 ^ max_digits \<le> \<bar>y\<bar> * 10 ^ decimal_places then Inl InvalidOperation
      else Inr y)"

section \<open>Catalog Store\<close>

text \<open>\<open>Product.can_sell\<close>.\<close>

definition can_sell :: "product \<Rightarrow> int \<Rightarrow> bool" where
  "can_sell self quantity =
     (if \<not> p_is_active self then False
      else if p_track_stock self \<and> p_stock self < quantity then False
      else True)"

text \<open>
  \<open>Product.adjust_stock\<close>, called on the instance \<open>self\<close> with primary key \<open>pid\<close>.
  \<open>save(update_fields=['stock'])\<close> writes the one column of the stored row and
  raises \<open>DatabaseError\<close> when no row is affected; the method has no other way to fail.
\<close>

definition adjust_stock ::
  "nat \<Rightarrow> product \<Rightarrow> int \<Rightarrow> string \<Rightarrow> nat option \<Rightarrow> db \<Rightarrow> error + (product \<times> db)" where
  "adjust_stock pid self quantity reason performed_by s =
     (let old_stock = p_stock self;
          self' = self\<lparr>p_stock := p_stock self + quantity\<rparr>
      in case products s pid of
           None \<Rightarrow> Inl DatabaseError
         | Some row \<Rightarrow>
             Inr (self',
                  s\<lparr>products := (products s)(pid \<mapsto> row\<lparr>p_stock := p_stock self'\<rparr>),
                    adjustments := adjustments s @
                      [\<lparr>ia_product = pid, ia_quantity_change = quantity,
                        ia_old_stock = old_stock, ia_new_stock = p_stock self',
                        ia_reason = reason, ia_performed_by = performed_by\<rparr>]\<rparr>))"

text \<open>
  \<open>Product.get_price_for_customer\<close>. The second component is the price-type label:
  the tier name and, when the customer discount applies, its percentage (the source
  formats both into one string).
\<close>

definition get_price_for_customer ::
  "product \<Rightarrow> customer option \<Rightarrow> nat \<Rightarrow> rat \<times> (string \<times> rat option)" where
  "get_price_for_customer self cust quantity =
     (let (price, price_type) =
            (case cust of
               Some c \<Rightarrow>
                 (if c_customer_type c = Wholesale then
                    (case p_wholesale_price self of
                       Some w \<Rightarrow>
                         (if w \<noteq> 0 \<and> w > 0 \<and> quantity \<ge> p_minimum_wholesale_quantity self
                          then (w, ''wholesale'')
                          else (p_sell_price self, ''retail''))
                     | None \<Rightarrow> (p_sell_price self, ''retail''))
                  else (p_sell_price self, ''retail''))
             | None \<Rightarrow> (p_sell_price self, ''retail''))
      in case cust of
           Some c \<Rightarrow>
             (if c_discount_percentage c > 0 then
                (let discount_amount = price * (c_discount_percentage c / 100)
                 in (price - discount_amount, (price_type, Some (c_discount_percentage c))))
              else (price, (price_type, None)))
         | None \<Rightarrow> (price, (price_type, None)))"

section \<open>Sale Aggregate\<close>

text \<open>\<open>self.items.all()\<close>: the line items of a sale, in id order.\<close>

definition items_of :: "nat \<Rightarrow> db \<Rightarrow> sale_item list" where
  "items_of sid s = filter (\<lambda>i. si_sale i = sid) (sale_items s)"

text \<open>\<open>SaleItem.tax_amount\<close>.\<close>

definition tax_amount :: "sale_item \<Rightarrow> rat" where
  "tax_amount self = (si_unit_price self * of_nat (si_quantity self) - si_discount self) * si_tax_rate self"

text \<open>
  \<open>save(update_fields=[...])\<close> on a sale with primary key \<open>sid\<close>: the listed columns
  of the stored row are overwritten (the function \<open>f\<close>), the others are kept.
\<close>

definition update_sale_row :: "nat \<Rightarrow> (sale \<Rightarrow> sale) \<Rightarrow> db \<Rightarrow> error + db" where
  "update_sale_row sid f s =
     (case sales s sid of
        None \<Rightarrow> Inl DatabaseError
      | Some row \<Rightarrow> Inr (s\<lparr>sales := (sales s)(sid \<mapsto> f row)\<rparr>))"

text \<open>
  \<open>Sale.calculate_totals\<close>. \<open>self.items.all()\<close> reads the item rows from the
  database, so the sums run over the rounded columns of the rows; the instance keeps the
  sums as computed.
\<close>

definition calculate_totals :: "nat \<Rightarrow> sale \<Rightarrow> db \<Rightarrow> error + (sale \<times> db)" where
  "calculate_totals sid self s =
     (let items = items_of sid s;
          subtotal = sum_list (map si_line_total items);
          tax = sum_list (map tax_amount items);
          total = subtotal + tax - s_discount self;
          self' = self\<lparr>s_subtotal := subtotal, s_tax := tax, s_total := total\<rparr>
      in case update_sale_row sid
                (\<lambda>row. row\<lparr>s_subtotal := subtotal, s_tax := tax, s_total := total\<rparr>) s of
           Inl e \<Rightarrow> Inl e
         | Inr s' \<Rightarrow> Inr (self', s'))"

text \<open>
  The loop of \<open>complete_sale\<close>: \<open>item.product\<close> is read from the database when the
  loop reaches the item, so a product on two lines is adjusted twice in sequence.
\<close>

fun deduct_stock :: "nat \<Rightarrow> sale_item list \<Rightarrow> db \<Rightarrow> error + db" where
  "deduct_stock cashier [] s = Inr s"
| "deduct_stock cashier (item # items) s =
     (case products s (si_product item) of
        None \<Rightarrow> Inl DoesNotExist
      | Some product \<Rightarrow>
          (if p_track_stock product then
             (case adjust_stock (si_product item) product (- int (si_quantity item)) ''sale''
                     (Some cashier) s of
                Inl e \<Rightarrow> Inl e
              | Inr (_, s') \<Rightarrow> deduct_stock cashier items s')
           else deduct_stock cashier items s))"

text \<open>
  \<open>Sale.complete_sale\<close> on the instance \<open>self\<close>, at clock reading \<open>now\<close>. The method
  is atomic: an exception leaves the database as it was, so the error carries no state.
\<close>

definition complete_sale :: "nat \<Rightarrow> nat \<Rightarrow> sale \<Rightarrow> db \<Rightarrow> error + (sale \<times> db)" where
  "complete_sale now sid self s =
     (if s_status self \<noteq> Pending then Inl (ValueError ''Only pending sales can be completed'')
      else case deduct_stock (s_cashier self) (items_of sid s) s of
             Inl e \<Rightarrow> Inl e
           | Inr s1 \<Rightarrow>
               (case update_sale_row sid
                       (\<lambda>row. row\<lparr>s_status := Completed, s_completed_at := Some now\<rparr>) s1 of
                  Inl e \<Rightarrow> Inl e
                | Inr s2 \<Rightarrow>
                    Inr (self\<lparr>s_status := Completed, s_completed_at := Some now\<rparr>, s2)))"

text \<open>The loop of \<open>void_sale\<close>.\<close>

fun restore_stock :: "nat \<Rightarrow> sale_item list \<Rightarrow> db \<Rightarrow> error + db" where
  "restore_stock usr [] s = Inr s"
| "restore_stock usr (item # items) s =
     (case products s (si_product item) of
        None \<Rightarrow> Inl DoesNotExist
      | Some product \<Rightarrow>
          (if p_track_stock product then
             (case adjust_stock (si_product item) product (int (si_quantity item)) ''return''
                     (Some usr) s of
                Inl e \<Rightarrow> Inl e
              | Inr (_, s') \<Rightarrow> restore_stock usr items s')
           else restore_stock usr items s))"

text \<open>\<open>Sale.void_sale\<close>, atomic like \<open>complete_sale\<close>.\<close>

definition void_sale :: "nat \<Rightarrow> nat \<Rightarrow> string \<Rightarrow> nat \<Rightarrow> sale \<Rightarrow> db \<Rightarrow> error + (sale \<times> db)" where
  "void_sale now usr reason sid self s =
     (if s_status self = Voided then Inl (ValueError ''Sale is already voided'')
      else case restore_stock usr (items_of sid s) s of
             Inl e \<Rightarrow> Inl e
           | Inr s1 \<Rightarrow>
               (case update_sale_row sid
                       (\<lambda>row. row\<lparr>s_status := Voided, s_voided_at := Some now,
                                   s_voided_by := Some usr, s_void_reason := reason\<rparr>) s1 of
                  Inl e \<Rightarrow> Inl e
                | Inr s2 \<Rightarrow>
                    Inr (self\<lparr>s_status := Voided, s_voided_at := Some now,
                              s_voided_by := Some usr, s_void_reason := reason\<rparr>, s2)))"

section \<open>pos/views.py: SaleViewSet\<close>

text \<open>
  The validated request data of \<open>CreateSaleSerializer\<close>. A request the serializer
  rejects is answered before anything is written and is not modelled. An absent
  \<open>customer_email\<close> or \<open>notes\<close> is the empty string, an absent item discount is
  \<open>None\<close>.
\<close>

record item_data =
  it_product_id :: nat
  it_quantity :: nat
  it_discount :: "rat option"

record payment_data =
  pd_amount :: rat
  pd_method :: string
  pd_amount_tendered :: "rat option"
  pd_change_amount :: "rat option"

record sale_data =
  d_customer_name :: string
  d_customer_phone :: string
  d_customer_email :: string
  d_items :: "item_data list"
  d_payments :: "payment_data list"
  d_discount :: rat
  d_notes :: string

text \<open>
  The answers of the view: 201 with the sale, 200, 400 with the reason, 404, or an
  exception that leaves the view (a 500).
\<close>

datatype reject =
    CannotBeSold string
  | WholesaleMinimum rat
  | InsufficientPayment
  | InvalidState string

datatype response =
    Created nat sale
  | Ok200
  | BadRequest reject
  | NotFound
  | ServerError error

text \<open>
  \<open>Customer.objects.get_or_create(phone=..., defaults=...)\<close>: the new row takes the
  defaults of the model for the fields not given.
\<close>

definition get_or_create_customer ::
  "string \<Rightarrow> string \<Rightarrow> string \<Rightarrow> db \<Rightarrow> error + ((nat \<times> customer) \<times> bool \<times> db)" where
  "get_or_create_customer phone name email s =
     (case filter (\<lambda>(i, c). c_phone c = phone) (customers s) of
        [] \<Rightarrow>
          (let i = next_customer_id s;
               c = \<lparr>c_name = name, c_email = email, c_phone = phone, c_customer_type = Retail,
                    c_discount_percentage = 0, c_current_balance = 0, c_is_active = True\<rparr>
           in Inr ((i, c), True, s\<lparr>customers := customers s @ [(i, c)], next_customer_id := i + 1\<rparr>))
      | [(i, c)] \<Rightarrow> Inr ((i, c), False, s)
      | _ \<Rightarrow> Inl MultipleObjectsReturned)"

text \<open>\<open>customer.save()\<close>: every column of the row is written.\<close>

definition save_customer :: "nat \<Rightarrow> customer \<Rightarrow> db \<Rightarrow> db" where
  "save_customer cid c s = s\<lparr>customers := AList.update cid c (customers s)\<rparr>"

text \<open>
  The row the database stores for the \<open>SaleItem\<close> instance \<open>self\<close>:
  \<open>unit_price\<close>, \<open>discount\<close> and \<open>line_total\<close> are
  \<open>DecimalField(max_digits=10, decimal_places=2)\<close>, \<open>tax_rate\<close> is
  \<open>DecimalField(max_digits=5, decimal_places=4)\<close>.
\<close>

definition sale_item_row :: "sale_item \<Rightarrow> error + sale_item" where
  "sale_item_row self =
     (case format_number 10 2 (si_unit_price self) of
        Inl e \<Rightarrow> Inl e
      | Inr unit_price \<Rightarrow>
          (case format_number 5 4 (si_tax_rate self) of
             Inl e \<Rightarrow> Inl e
           | Inr tax_rate \<Rightarrow>
               (case format_number 10 2 (si_discount self) of
                  Inl e \<Rightarrow> Inl e
                | Inr discount \<Rightarrow>
                    (case format_number 10 2 (si_line_total self) of
                       Inl e \<Rightarrow> Inl e
                     | Inr line_total \<Rightarrow>
                         Inr (self\<lparr>si_unit_price := unit_price, si_tax_rate := tax_rate,
                                   si_discount := discount, si_line_total := line_total\<rparr>)))))"

text \<open>
  The loop over \<open>data['items']\<close>. It ends in one of three ways: an exception
  (\<open>Product.DoesNotExist\<close>, or a value a column cannot hold), the early
  \<open>return Response(..., 400)\<close>, or the end of the list. \<open>SaleItem.save\<close> computes the
  line total of the new instance from the price the view passed, and the row is written
  with its columns rounded.
\<close>

datatype flow = Raise error | Return reject db | Continue db

fun create_items :: "customer \<Rightarrow> nat \<Rightarrow> item_data list \<Rightarrow> db \<Rightarrow> flow" where
  "create_items cust sid [] s = Continue s"
| "create_items cust sid (d # ds) s =
     (case products s (it_product_id d) of
        None \<Rightarrow> Raise DoesNotExist
      | Some product \<Rightarrow>
          (if \<not> can_sell product (int (it_quantity d)) then Return (CannotBeSold (p_sku product)) s
           else
             (let unit_price = fst (get_price_for_customer product (Some cust) (it_quantity d));
                  discount = (case it_discount d of None \<Rightarrow> 0 | Some x \<Rightarrow> x);
                  item = \<lparr>si_sale = sid, si_product = it_product_id d,
                          si_quantity = it_quantity d, si_unit_price = unit_price,
                          si_tax_rate = p_tax_rate product, si_discount = discount,
                          si_line_total = unit_price * of_nat (it_quantity d) - discount\<rparr>
              in case sale_item_row item of
                   Inl e \<Rightarrow> Raise e
                 | Inr row \<Rightarrow>
                     create_items cust sid ds (s\<lparr>sale_items := sale_items s @ [row]\<rparr>))))"

text \<open>The loop over \<open>data['payments']\<close>, with the running \<open>total_payment\<close>.\<close>

fun create_payments :: "nat \<Rightarrow> payment_data list \<Rightarrow> rat \<times> db \<Rightarrow> rat \<times> db" where
  "create_payments sid [] (total_payment, s) = (total_payment, s)"
| "create_payments sid (d # ds) (total_payment, s) =
     (let amount = pd_amount d;
          row = \<lparr>pay_sale = Some sid, pay_amount = amount, pay_method = pd_method d,
                 pay_status = PayCompleted, pay_amount_tendered = pd_amount_tendered d,
                 pay_change_amount = pd_change_amount d\<rparr>
      in create_payments sid ds
           (total_payment + amount,
            s\<lparr>payments := payments s @ [(next_payment_id s, row)],
              next_payment_id := next_payment_id s + 1\<rparr>))"

text \<open>
  The settlement step of \<open>create_sale\<close> (``Validate payment based on customer type''),
  on the instances \<open>customer\<close> and \<open>sale\<close> the view holds. \<open>Inl\<close> is the early
  \<open>return Response(..., 400)\<close>, which writes nothing; \<open>Inr\<close> carries the instances
  and the database on to \<open>complete_sale\<close>.
\<close>

definition settle ::
  "nat \<Rightarrow> customer \<Rightarrow> nat \<Rightarrow> sale \<Rightarrow> rat \<Rightarrow> db \<Rightarrow> reject + (customer \<times> sale \<times> db)" where
  "settle cid cust sid sale total_payment s =
     (if c_customer_type cust = Wholesale then
        (let min_payment = s_total sale * (5 / 10) in
         if total_payment < min_payment then Inl (WholesaleMinimum min_payment)
         else if total_payment < s_total sale then
           (let sale' = sale\<lparr>s_payment_status := Partial\<rparr>;
                s1 = s\<lparr>sales := (sales s)(sid \<mapsto> sale')\<rparr>;
                remaining_balance = s_total sale' - total_payment;
                cust' = cust\<lparr>c_current_balance := c_current_balance cust + remaining_balance\<rparr>
            in Inr (cust', sale', save_customer cid cust' s1))
         else Inr (cust, sale, s))
      else if total_payment < s_total sale then Inl InsufficientPayment
      else Inr (cust, sale, s))"

text \<open>
  \<open>SaleViewSet.create_sale\<close>, for the user \<open>usr\<close> at clock reading \<open>now\<close>, on the
  database \<open>s0\<close>. The view is wrapped in \<open>transaction.atomic\<close>: an exception that
  leaves it rolls the database back to \<open>s0\<close>, while a returned response, also a 400,
  leaves the block normally and commits what was written so far.
\<close>

definition create_sale :: "nat \<Rightarrow> user \<Rightarrow> sale_data \<Rightarrow> db \<Rightarrow> response \<times> db" where
  "create_sale now usr data s0 =
     (case get_or_create_customer (d_customer_phone data) (d_customer_name data)
             (d_customer_email data) s0 of
        Inl e \<Rightarrow> (ServerError e, s0)
      | Inr ((cid, c0), created, s1) \<Rightarrow>
          (let cust = (if created then c0
                       else c0\<lparr>c_name := d_customer_name data,
                               c_email := (if d_customer_email data \<noteq> [] then d_customer_email data
                                           else c_email c0)\<rparr>);
               s2 = (if created then s1 else save_customer cid cust s1);
               sid = next_sale_id s2;
               sale0 = \<lparr>s_cashier = u_id usr, s_customer = Some cid, s_subtotal = 0, s_tax = 0,
                        s_discount = d_discount data, s_total = 0,
                        s_payment_status = PaymentPending, s_amount_paid = 0,
                        s_status = Pending, s_notes = d_notes data,
                        s_terminal_id = u_terminal_id usr, s_completed_at = None,
                        s_voided_at = None, s_voided_by = None, s_void_reason = []\<rparr>;
               s3 = s2\<lparr>sales := (sales s2)(sid \<mapsto> sale0), next_sale_id := sid + 1\<rparr>
           in case create_items cust sid (d_items data) s3 of
                Raise e \<Rightarrow> (ServerError e, s0)
              | Return r s4 \<Rightarrow> (BadRequest r, s4)
              | Continue s4 \<Rightarrow>
                  (case calculate_totals sid sale0 s4 of
                     Inl e \<Rightarrow> (ServerError e, s0)
                   | Inr (sale1, s5) \<Rightarrow>
                       (let (total_payment, s6) = create_payments sid (d_payments data) (0, s5)
                        in case settle cid cust sid sale1 total_payment s6 of
                             Inl r \<Rightarrow> (BadRequest r, s6)
                           | Inr (cust', sale2, s7) \<Rightarrow>
                               (case complete_sale now sid sale2 s7 of
                                  Inl e \<Rightarrow> (ServerError e, s0)
                                | Inr (sale3, s8) \<Rightarrow> (Created sid sale3, s8))))))"

text \<open>
  \<open>SaleViewSet.void\<close>: \<open>get_object\<close> reads the sale from the database; a
  \<open>ValueError\<close> of \<open>void_sale\<close> becomes a 400, any other exception leaves the view.
\<close>

definition void :: "nat \<Rightarrow> user \<Rightarrow> string \<Rightarrow> nat \<Rightarrow> db \<Rightarrow> response \<times> db" where
  "void now usr reason sid s =
     (case sales s sid of
        None \<Rightarrow> (NotFound, s)
      | Some sale \<Rightarrow>
          (case void_sale now (u_id usr) reason sid sale s of
             Inl (ValueError m) \<Rightarrow> (BadRequest (InvalidState m), s)
           | Inl e \<Rightarrow> (ServerError e, s)
           | Inr (_, s') \<Rightarrow> (Ok200, s')))"

section \<open>Invoice Aggregate\<close>

subsection \<open>Python's string operations\<close>

text \<open>
  Strings are compared as the database and Python compare them, character code by
  character code, a proper prefix first: the order of \<open>List_Lexorder\<close> over
  \<open>Char_ord\<close>.
\<close>

definition startswith :: "string \<Rightarrow> string \<Rightarrow> bool" where
  "startswith x prefix = (take (length prefix) x = prefix)"

text \<open>\<open>x.split(sep)\<close> for a single character \<open>sep\<close>.\<close>

fun split :: "char \<Rightarrow> string \<Rightarrow> string list" where
  "split sep [] = [[]]"
| "split sep (c # cs) =
     (if c = sep then [] # split sep cs
      else (case split sep cs of [] \<Rightarrow> [[c]] | w # ws \<Rightarrow> (c # w) # ws))"

definition is_digit :: "char \<Rightarrow> bool" where
  "is_digit c = (c \<in> set ''0123456789'')"

definition digit_val :: "char \<Rightarrow> nat" where
  "digit_val c = of_char c - 48"

definition is_space :: "char \<Rightarrow> bool" where
  "is_space c = (c \<in> {CHR '' '', CHR 0x09, CHR 0x0A, CHR 0x0B, CHR 0x0C, CHR 0x0D,
                        CHR 0x1C, CHR 0x1D, CHR 0x1E, CHR 0x1F})"

definition strip :: "string \<Rightarrow> string" where
  "strip x = rev (dropWhile is_space (rev (dropWhile is_space x)))"

text \<open>Digits with single underscores between them, as \<open>int()\<close> accepts.\<close>

fun digits_ok :: "string \<Rightarrow> bool" where
  "digits_ok [] = False"
| "digits_ok [c] = is_digit c"
| "digits_ok (c # d # cs) =
     (is_digit c \<and> (if d = CHR ''_'' then digits_ok cs else digits_ok (d # cs)))"

definition nat_of_digits :: "string \<Rightarrow> nat" where
  "nat_of_digits ds = foldl (\<lambda>a c. 10 * a + digit_val c) 0 ds"

text \<open>\<open>int(x)\<close> on an ASCII string: surrounding whitespace, an optional sign, digits.\<close>

definition int_of_str :: "string \<Rightarrow> error + int" where
  "int_of_str x =
     (let t = strip x;
          (neg, u) = (case t of
                        [] \<Rightarrow> (False, [])
                      | c # r \<Rightarrow> if c = CHR ''-'' then (True, r)
                                 else if c = CHR ''+'' then (False, r) else (False, t))
      in if digits_ok u
         then Inr ((if neg then - 1 else 1) * int (nat_of_digits (filter is_digit u)))
         else Inl (ValueError ''invalid literal for int() with base 10''))"

text \<open>\<open>str(n)\<close> and the format \<open>{n:04d}\<close>.\<close>

function str_of_nat :: "nat \<Rightarrow> string" where
  "str_of_nat n =
     (if n < 10 then [char_of (48 + n)]
      else str_of_nat (n div 10) @ [char_of (48 + n mod 10)])"
  by pat_completeness auto
termination
  by (relation "measure id") auto

declare str_of_nat.simps [simp del]

definition zfill :: "nat \<Rightarrow> string \<Rightarrow> string" where
  "zfill w x = replicate (w - length x) (CHR ''0'') @ x"

definition format_04d :: "int \<Rightarrow> string" where
  "format_04d n =
     (if n < 0 then CHR ''-'' # zfill 3 (str_of_nat (nat (- n)))
      else zfill 4 (str_of_nat (nat n)))"

subsection \<open>wholesale/models.py: Invoice\<close>

text \<open>
  \<open>Invoice.generate_invoice_number\<close> in the calendar year \<open>year\<close>. The aggregate
  \<open>Max('invoice_number')\<close> is the greatest of the stored strings that start with the
  prefix, \<open>None\<close> when there is none.
\<close>

definition max_invoice_number :: "string \<Rightarrow> db \<Rightarrow> string option" where
  "max_invoice_number prefix s =
     (case filter (\<lambda>x. startswith x prefix) (map (inv_invoice_number \<circ> snd) (invoices s)) of
        [] \<Rightarrow> None
      | x # xs \<Rightarrow> Some (fold max xs x))"

definition generate_invoice_number :: "nat \<Rightarrow> db \<Rightarrow> error + string" where
  "generate_invoice_number year s =
     (let prefix = ''INV-'' @ str_of_nat year @ ''-'' in
      case max_invoice_number prefix s of
        None \<Rightarrow> Inr (prefix @ format_04d 1)
      | Some last_invoice \<Rightarrow>
          (if last_invoice = [] then Inr (prefix @ format_04d 1)
           else case int_of_str (last (split (CHR ''-'') last_invoice)) of
                  Inl e \<Rightarrow> Inl e
                | Inr last_number \<Rightarrow> Inr (prefix @ format_04d (last_number + 1))))"

text \<open>\<open>Invoice.calculate_due_date\<close>.\<close>

definition calculate_due_date :: "invoice \<Rightarrow> int" where
  "calculate_due_date self =
     (let terms_days = [(''net_30'', 30), (''net_15'', 15), (''net_7'', 7),
                        (''due_on_receipt'', 0), (''custom'', 0)];
          days = (case map_of terms_days (inv_payment_terms self) of
                    None \<Rightarrow> 30 | Some d \<Rightarrow> d)
      in inv_issue_date self + days)"

text \<open>
  \<open>Invoice.update_payment_status\<close> on the day \<open>today\<close>. Comparing a missing due
  date raises \<open>TypeError\<close>.
\<close>

definition update_payment_status :: "int \<Rightarrow> invoice \<Rightarrow> error + invoice" where
  "update_payment_status today self =
     (let self1 = (if inv_amount_paid self \<le> 0 then self\<lparr>inv_payment_status := ''unpaid''\<rparr>
                   else if inv_amount_paid self \<ge> inv_total_amount self
                   then self\<lparr>inv_payment_status := ''paid''\<rparr>
                   else self\<lparr>inv_payment_status := ''partial''\<rparr>)
      in if inv_payment_status self1 \<noteq> ''paid'' then
           (case inv_due_date self1 of
              None \<Rightarrow> Inl TypeError
            | Some due \<Rightarrow>
                (if due < today then Inr (self1\<lparr>inv_payment_status := ''overdue''\<rparr>)
                 else Inr self1))
         else Inr self1)"


text \<open>
  \<open>Invoice.save\<close> in the year \<open>year\<close> on the day \<open>today\<close>. An instance without a
  primary key is inserted under the next id, and the unique \<open>invoice_number\<close> column
  refuses a number that is already stored; an instance with a key overwrites its row,
  whose number it carries.
\<close>

definition invoice_save ::
  "nat \<Rightarrow> int \<Rightarrow> nat option \<Rightarrow> invoice \<Rightarrow> db \<Rightarrow> error + ((nat \<times> invoice) \<times> db)" where
  "invoice_save year today pk self s =
     (case (if inv_invoice_number self = [] then generate_invoice_number year s
            else Inr (inv_invoice_number self)) of
        Inl e \<Rightarrow> Inl e
      | Inr number \<Rightarrow>
          (let self1 = self\<lparr>inv_invoice_number := number\<rparr>;
               self2 = (case inv_due_date self1 of
                          None \<Rightarrow> self1\<lparr>inv_due_date := Some (calculate_due_date self1)\<rparr>
                        | Some _ \<Rightarrow> self1)
           in case update_payment_status today self2 of
                Inl e \<Rightarrow> Inl e
              | Inr self3 \<Rightarrow>
                  (case pk of
                     None \<Rightarrow>
                       (if number \<in> set (map (inv_invoice_number \<circ> snd) (invoices s))
                        then Inl IntegrityError
                        else Inr ((next_invoice_id s, self3),
                                  s\<lparr>invoices := invoices s @ [(next_invoice_id s, self3)],
                                    next_invoice_id := next_invoice_id s + 1\<rparr>))
                   | Some i \<Rightarrow>
                       Inr ((i, self3), s\<lparr>invoices := AList.update i self3 (invoices s)\<rparr>))))"

subsection \<open>wholesale/models.py: InvoicePayment\<close>

text \<open>The aggregate \<open>Sum('amount')\<close> over the payments linked to an invoice, \<open>or 0\<close>.\<close>

definition linked_total :: "nat \<Rightarrow> db \<Rightarrow> rat" where
  "linked_total iid s =
     sum_list (map ip_amount (filter (\<lambda>l. ip_invoice l = iid) (invoice_payments s)))"


subsection \<open>wholesale/views.py\<close>

datatype notice =
    PaymentMustBePositive
  | PaymentExceedsBalance
  | PaymentRecorded rat
  | RecordingFailed
  | CannotCancelWithPayments
  | InvoiceCancelled string

datatype page = Page404 | Page500 error | Redirect "notice option"


text \<open>\<open>invoice_cancel\<close>.\<close>

definition invoice_cancel :: "nat \<Rightarrow> int \<Rightarrow> bool \<Rightarrow> nat \<Rightarrow> db \<Rightarrow> page \<times> db" where
  "invoice_cancel year today is_post invoice_id s =
     (case map_of (invoices s) invoice_id of
        None \<Rightarrow> (Page404, s)
      | Some invoice \<Rightarrow>
          (if is_post then
             (if inv_amount_paid invoice > 0 then (Redirect (Some CannotCancelWithPayments), s)
              else
                (let invoice1 = invoice\<lparr>inv_payment_status := ''cancelled''\<rparr>
                 in case invoice_save year today (Some invoice_id) invoice1 s of
                      Inl e \<Rightarrow> (Page500 e, s)
                    | Inr ((_, invoice2), s') \<Rightarrow>
                        (Redirect (Some (InvoiceCancelled (inv_invoice_number invoice2))), s')))
           else (Redirect None, s)))"

section \<open>Coupon\<close>

record coupon =
  cp_code :: string
  cp_min_purchase :: rat
  cp_valid_from :: int
  cp_valid_to :: int
  cp_is_active :: bool
  cp_usage_limit :: "int option"
  cp_times_used :: int

text \<open>
  \<open>Coupon.is_valid\<close> at clock reading \<open>now\<close>; \<open>cart_total\<close> is \<open>None\<close> when the
  caller passes none. A usage limit that is \<open>None\<close> or 0 is falsy and is not checked.
\<close>

definition is_valid :: "int \<Rightarrow> coupon \<Rightarrow> rat option \<Rightarrow> bool \<times> string" where
  "is_valid now self cart_total =
     (if \<not> cp_is_active self then (False, ''Coupon is not active'')
      else if now < cp_valid_from self then (False, ''Coupon is not yet valid'')
      else if now > cp_valid_to self then (False, ''Coupon has expired'')
      else if (case cp_usage_limit self of
                 None \<Rightarrow> False
               | Some l \<Rightarrow> l \<noteq> 0 \<and> cp_times_used self \<ge> l)
      then (False, ''Coupon usage limit reached'')
      else if (case cart_total of None \<Rightarrow> False | Some t \<Rightarrow> t < cp_min_purchase self)
      then (False, ''Minimum purchase required'')
      else (True, ''Valid''))"

section \<open>Specification vocabulary\<close>

text \<open>
  The quantity a sale's lines carry for one product, and the product table after every
  tracked product has been moved by \<open>k\<close> times that quantity.
\<close>

definition line_qty :: "nat \<Rightarrow> sale_item list \<Rightarrow> int" where
  "line_qty pid items =
     sum_list (map (\<lambda>i. int (si_quantity i)) (filter (\<lambda>i. si_product i = pid) items))"

definition stock_shift :: "int \<Rightarrow> sale_item list \<Rightarrow> (nat \<rightharpoonup> product) \<Rightarrow> (nat \<rightharpoonup> product)" where
  "stock_shift k items ps =
     (\<lambda>pid. case ps pid of
              None \<Rightarrow> None
            | Some p \<Rightarrow> Some (if p_track_stock p
                              then p\<lparr>p_stock := p_stock p + k * line_qty pid items\<rparr> else p))"

section \<open>Example data\<close>

text \<open>
  Concrete databases and requests on which the theorems below are instantiated: a shop
  with one tracked product, a wholesale customer, a pending sale of two lines, and
  invoices with and without linked payments.
\<close>

definition empty_db :: db where
  "empty_db = \<lparr>products = Map.empty, adjustments = [], customers = [], next_customer_id = 1,
     sales = Map.empty, next_sale_id = 1, sale_items = [], payments = [], next_payment_id = 1,
     invoices = [], next_invoice_id = 1, invoice_payments = []\<rparr>"

definition cashier :: user where
  "cashier = \<lparr>u_id = 7, u_terminal_id = ''T1''\<rparr>"

definition widget :: product where
  "widget = \<lparr>p_sku = ''W-1'', p_sell_price = 80, p_wholesale_price = None,
     p_minimum_wholesale_quantity = 1, p_tax_rate = 0, p_stock = 3, p_is_active = True,
     p_track_stock = True\<rparr>"

definition shop_db :: db where
  "shop_db = empty_db\<lparr>products := [1 \<mapsto> widget]\<rparr>"

definition retail_order :: "rat \<Rightarrow> sale_data" where
  "retail_order paid = \<lparr>d_customer_name = ''Ama'', d_customer_phone = ''0200'',
     d_customer_email = [],
     d_items = [\<lparr>it_product_id = 1, it_quantity = 1, it_discount = None\<rparr>],
     d_payments = [\<lparr>pd_amount = paid, pd_method = ''cash'', pd_amount_tendered = None,
                    pd_change_amount = None\<rparr>],
     d_discount = 0, d_notes = []\<rparr>"





definition pending_sale :: sale where
  "pending_sale = \<lparr>s_cashier = 7, s_customer = None, s_subtotal = 240, s_tax = 0,
     s_discount = 0, s_total = 240, s_payment_status = PaymentPending, s_amount_paid = 0,
     s_status = Pending, s_notes = [], s_terminal_id = ''T1'', s_completed_at = None,
     s_voided_at = None, s_voided_by = None, s_void_reason = []\<rparr>"

definition widget_line :: "nat \<Rightarrow> sale_item" where
  "widget_line q = \<lparr>si_sale = 1, si_product = 1, si_quantity = q, si_unit_price = 80,
     si_tax_rate = 0, si_discount = 0, si_line_total = 80 * of_nat q\<rparr>"

definition pending_db :: db where
  "pending_db = shop_db\<lparr>sales := [1 \<mapsto> pending_sale], next_sale_id := 2,
     sale_items := [widget_line 1, widget_line 2]\<rparr>"

definition open_invoice :: invoice where
  "open_invoice = \<lparr>inv_invoice_number = ''INV-2026-0001'', inv_customer = 1, inv_sale = None,
     inv_issue_date = 100, inv_due_date = Some 130, inv_payment_terms = ''net_30'',
     inv_total_amount = 100, inv_amount_paid = 0, inv_payment_status = ''unpaid''\<rparr>"

definition invoice_db :: db where
  "invoice_db = empty_db\<lparr>invoices := [(1, open_invoice)], next_invoice_id := 2\<rparr>"




definition full_year_db :: db where
  "full_year_db = empty_db\<lparr>
     invoices := [(9998, open_invoice\<lparr>inv_invoice_number := ''INV-2026-9998''\<rparr>),
                  (9999, open_invoice\<lparr>inv_invoice_number := ''INV-2026-9999''\<rparr>)],
     next_invoice_id := 10000\<rparr>"

definition busy_year_db :: db where
  "busy_year_db = full_year_db\<lparr>
     invoices := invoices full_year_db @
                 [(10000, open_invoice\<lparr>inv_invoice_number := ''INV-2026-10000''\<rparr>)],
     next_invoice_id := 10001\<rparr>"

definition new_invoice :: invoice where
  "new_invoice = \<lparr>inv_invoice_number = [], inv_customer = 1, inv_sale = None,
     inv_issue_date = 100, inv_due_date = None, inv_payment_terms = ''net_30'',
     inv_total_amount = 0, inv_amount_paid = 0, inv_payment_status = ''unpaid''\<rparr>"

definition order_of :: "nat list \<Rightarrow> rat \<Rightarrow> sale_data" where
  "order_of quantities paid = \<lparr>d_customer_name = ''Ama'', d_customer_phone = ''0200'',
     d_customer_email = [],
     d_items = map (\<lambda>q. \<lparr>it_product_id = 1, it_quantity = q, it_discount = None\<rparr>) quantities,
     d_payments = [\<lparr>pd_amount = paid, pd_method = ''cash'', pd_amount_tendered = None,
                    pd_change_amount = None\<rparr>],
     d_discount = 0, d_notes = []\<rparr>"







definition spring_coupon :: coupon where
  "spring_coupon = \<lparr>cp_code = ''SPRING'', cp_min_purchase = 50, cp_valid_from = 10,
     cp_valid_to = 20, cp_is_active = True, cp_usage_limit = None, cp_times_used = 0\<rparr>"


section \<open>Stock deduction and restoration\<close>

lemma line_qty_Nil [simp]: "line_qty pid [] = 0"
  by (simp add: line_qty_def)

lemma line_qty_Cons [simp]:
  "line_qty pid (i # items) =
     (if si_product i = pid then int (si_quantity i) else 0) + line_qty pid items"
  by (simp add: line_qty_def)

lemma stock_shift_Nil [simp]: "stock_shift k [] ps = ps"
  by (rule ext) (simp add: stock_shift_def split: option.splits)

lemma adjust_stock_row:
  "products s pid = Some row \<Longrightarrow>
   adjust_stock pid row q r u s =
     Inr (row\<lparr>p_stock := p_stock row + q\<rparr>,
          s\<lparr>products := (products s)(pid \<mapsto> row\<lparr>p_stock := p_stock row + q\<rparr>),
            adjustments := adjustments s @
              [\<lparr>ia_product = pid, ia_quantity_change = q, ia_old_stock = p_stock row,
                ia_new_stock = p_stock row + q, ia_reason = r, ia_performed_by = u\<rparr>]\<rparr>)"
  by (simp add: adjust_stock_def Let_def)

lemma stock_shift_step':
  assumes "ps (si_product i) = Some p" "p_track_stock p"
  shows "stock_shift k items (ps(si_product i \<mapsto> p\<lparr>p_stock := p_stock p + k * int (si_quantity i)\<rparr>)) =
         stock_shift k (i # items) ps"
  using assms by (auto simp: stock_shift_def fun_eq_iff algebra_simps split: option.splits)

lemma stock_shift_skip:
  assumes "ps (si_product i) = Some p" "\<not> p_track_stock p"
  shows "stock_shift k (i # items) ps = stock_shift k items ps"
  using assms by (auto simp: stock_shift_def fun_eq_iff split: option.splits)

lemma deduct_stock_products:
  "\<forall>i\<in>set items. products s (si_product i) \<noteq> None \<Longrightarrow>
   \<exists>s'. deduct_stock c items s = Inr s' \<and>
        products s' = stock_shift (- 1) items (products s) \<and>
        sales s' = sales s \<and> sale_items s' = sale_items s \<and>
        customers s' = customers s \<and> payments s' = payments s"
proof (induction items arbitrary: s)
  case Nil
  then show ?case by simp
next
  case (Cons i items)
  from Cons.prems obtain p where p: "products s (si_product i) = Some p" by auto
  show ?case
  proof (cases "p_track_stock p")
    case True
    let ?s1 = "s\<lparr>products := (products s)(si_product i \<mapsto> p\<lparr>p_stock := p_stock p + - int (si_quantity i)\<rparr>),
            adjustments := adjustments s @
              [\<lparr>ia_product = si_product i, ia_quantity_change = - int (si_quantity i), ia_old_stock = p_stock p,
                ia_new_stock = p_stock p + - int (si_quantity i), ia_reason = ''sale'', ia_performed_by = Some c\<rparr>]\<rparr>"
    have "\<forall>j\<in>set items. products ?s1 (si_product j) \<noteq> None"
      using Cons.prems by simp
    from Cons.IH [OF this] obtain s' where s':
      "deduct_stock c items ?s1 = Inr s'"
      "products s' = stock_shift (- 1) items (products ?s1)"
      "sales s' = sales ?s1" "sale_items s' = sale_items ?s1"
      "customers s' = customers ?s1" "payments s' = payments ?s1"
      by blast
    have "products s' = stock_shift (- 1) (i # items) (products s)"
      using s'(2) stock_shift_step' [where ps = "products s" and i = i and p = p and k = "- 1"
          and items = items, OF p True] by simp
    moreover have "deduct_stock c (i # items) s = Inr s'"
      using p True s'(1) by (simp add: adjust_stock_row)
    ultimately show ?thesis using s' by simp
  next
    case False
    from Cons.prems have "\<forall>j\<in>set items. products s (si_product j) \<noteq> None" by simp
    from Cons.IH [OF this] obtain s' where s':
      "deduct_stock c items s = Inr s'"
      "products s' = stock_shift (- 1) items (products s)"
      "sales s' = sales s" "sale_items s' = sale_items s"
      "customers s' = customers s" "payments s' = payments s"
      by blast
    then show ?thesis using p False by (simp add: stock_shift_skip)
  qed
qed


lemma restore_stock_products:
  "\<forall>i\<in>set items. products s (si_product i) \<noteq> None \<Longrightarrow>
   \<exists>s'. restore_stock u items s = Inr s' \<and>
        products s' = stock_shift 1 items (products s) \<and>
        sales s' = sales s \<and> sale_items s' = sale_items s \<and>
        customers s' = customers s \<and> payments s' = payments s"
proof (induction items arbitrary: s)
  case Nil
  then show ?case by simp
next
  case (Cons i items)
  from Cons.prems obtain p where p: "products s (si_product i) = Some p" by auto
  show ?case
  proof (cases "p_track_stock p")
    case True
    let ?s1 = "s\<lparr>products := (products s)(si_product i \<mapsto> p\<lparr>p_stock := p_stock p + int (si_quantity i)\<rparr>),
            adjustments := adjustments s @
              [\<lparr>ia_product = si_product i, ia_quantity_change = int (si_quantity i), ia_old_stock = p_stock p,
                ia_new_stock = p_stock p + int (si_quantity i), ia_reason = ''return'', ia_performed_by = Some u\<rparr>]\<rparr>"
    have "\<forall>j\<in>set items. products ?s1 (si_product j) \<noteq> None"
      using Cons.prems by simp
    from Cons.IH [OF this] obtain s' where s':
      "restore_stock u items ?s1 = Inr s'"
      "products s' = stock_shift 1 items (products ?s1)"
      "sales s' = sales ?s1" "sale_items s' = sale_items ?s1"
      "customers s' = customers ?s1" "payments s' = payments ?s1"
      by blast
    have "products s' = stock_shift 1 (i # items) (products s)"
      using s'(2) stock_shift_step' [where ps = "products s" and i = i and p = p and k = 1
          and items = items, OF p True] by simp
    moreover have "restore_stock u (i # items) s = Inr s'"
      using p True s'(1) by (simp add: adjust_stock_row)
    ultimately show ?thesis using s' by simp
  next
    case False
    from Cons.prems have "\<forall>j\<in>set items. products s (si_product j) \<noteq> None" by simp
    from Cons.IH [OF this] obtain s' where s':
      "restore_stock u items s = Inr s'"
      "products s' = stock_shift 1 items (products s)"
      "sales s' = sales s" "sale_items s' = sale_items s"
      "customers s' = customers s" "payments s' = payments s"
      by blast
    then show ?thesis using p False by (simp add: stock_shift_skip)
  qed
qed

lemma stock_shift_inverse: "stock_shift 1 items (stock_shift (- 1) items ps) = ps"
  by (rule ext) (auto simp: stock_shift_def split: option.splits)

lemma stock_shift_dom: "ps pid \<noteq> None \<Longrightarrow> stock_shift k items ps pid \<noteq> None"
  by (auto simp: stock_shift_def split: option.splits)

text \<open>
  C3. For a pending sale whose line items all refer to stored products,
  \<open>complete_sale\<close> succeeds and lowers the stock of every tracked product by the
  quantities of the sale's lines for that product (untracked products keep their stock);
  a \<open>void_sale\<close> of the completed sale then succeeds and leaves every product exactly
  as it was before \<open>complete_sale\<close>.
\<close>

theorem complete_then_void_restores_stock:
  assumes row: "sales s sid = Some sale"
    and pending: "s_status sale = Pending"
    and fk: "\<forall>i\<in>set (items_of sid s). products s (si_product i) \<noteq> None"
  shows "\<exists>sale1 s1 sale2 s2.
           complete_sale now sid sale s = Inr (sale1, s1) \<and>
           void_sale now' usr reason sid sale1 s1 = Inr (sale2, s2) \<and>
           (\<forall>pid p. products s pid = Some p \<longrightarrow>
              (\<exists>p1. products s1 pid = Some p1 \<and>
                    p_stock p1 = p_stock p -
                      (if p_track_stock p then line_qty pid (items_of sid s) else 0))) \<and>
           products s2 = products s"
proof -
  let ?items = "items_of sid s"
  from deduct_stock_products [OF fk, of "s_cashier sale"] obtain d where d:
    "deduct_stock (s_cashier sale) ?items s = Inr d"
    "products d = stock_shift (- 1) ?items (products s)"
    "sales d = sales s" "sale_items d = sale_items s"
    by blast
  let ?sale1 = "sale\<lparr>s_status := Completed, s_completed_at := Some now\<rparr>"
  let ?s1 = "d\<lparr>sales := (sales d)(sid \<mapsto> ?sale1)\<rparr>"
  have c: "complete_sale now sid sale s = Inr (?sale1, ?s1)"
    using pending d row by (simp add: complete_sale_def update_sale_row_def)
  have items1: "items_of sid ?s1 = ?items"
    using d(4) by (simp add: items_of_def)
  have fk1: "\<forall>i\<in>set (items_of sid ?s1). products ?s1 (si_product i) \<noteq> None"
    using fk d(2) stock_shift_dom by (simp add: items1)
  from restore_stock_products [OF fk1, of usr] obtain r where r:
    "restore_stock usr ?items ?s1 = Inr r"
    "products r = stock_shift 1 ?items (products ?s1)"
    "sales r = sales ?s1"
    by (auto simp: items1)
  let ?sale2 = "?sale1\<lparr>s_status := Voided, s_voided_at := Some now',
                        s_voided_by := Some usr, s_void_reason := reason\<rparr>"
  let ?s2 = "r\<lparr>sales := (sales r)(sid \<mapsto> ?sale2)\<rparr>"
  have v: "void_sale now' usr reason sid ?sale1 ?s1 = Inr (?sale2, ?s2)"
    using r by (simp add: void_sale_def update_sale_row_def items1)
  have restored: "products ?s2 = products s"
    using r(2) d(2) by (simp add: stock_shift_inverse)
  have lowered: "\<forall>pid p. products s pid = Some p \<longrightarrow>
              (\<exists>p1. products ?s1 pid = Some p1 \<and>
                    p_stock p1 = p_stock p -
                      (if p_track_stock p then line_qty pid ?items else 0))"
    using d(2) by (simp add: stock_shift_def)
  from c v lowered restored show ?thesis by blast
qed

text \<open>
  C3 on the pending sale of the example, whose two lines carry 1 and 2 units of the
  widget in stock 3: completing leaves stock 0, voiding brings the product table back.
\<close>

theorem complete_then_void_witness:
  "sales pending_db 1 = Some pending_sale \<and> s_status pending_sale = Pending \<and>
   (case complete_sale 5 1 pending_sale pending_db of
      Inl e \<Rightarrow> False
    | Inr (sale1, s1) \<Rightarrow>
        map_option p_stock (products s1 1) = Some 0 \<and>
        (case void_sale 6 9 ''mistake'' 1 sale1 s1 of
           Inl e \<Rightarrow> False
         | Inr (sale2, s2) \<Rightarrow> products s2 = products pending_db)) \<and>
   map_option p_stock (products pending_db 1) = Some 3"
proof -
  have h1: "sales pending_db 1 = Some pending_sale"
    by (simp add: pending_db_def)
  have h2: "s_status pending_sale = Pending"
    by (simp add: pending_sale_def)
  have h3: "\<forall>i\<in>set (items_of 1 pending_db). products pending_db (si_product i) \<noteq> None"
    by (simp add: items_of_def pending_db_def shop_db_def empty_db_def widget_line_def)
  have p: "products pending_db 1 = Some widget"
    by (simp add: pending_db_def shop_db_def empty_db_def)
  have q: "line_qty 1 (items_of 1 pending_db) = 3"
    by (simp add: items_of_def pending_db_def widget_line_def)
  from complete_then_void_restores_stock
         [where now = 5 and now' = 6 and usr = 9 and reason = "''mistake''", OF h1 h2 h3]
  obtain sale1 s1 sale2 s2 where
    c: "complete_sale 5 1 pending_sale pending_db = Inr (sale1, s1)"
    and v: "void_sale 6 9 ''mistake'' 1 sale1 s1 = Inr (sale2, s2)"
    and low: "\<forall>pid p. products pending_db pid = Some p \<longrightarrow>
              (\<exists>p1. products s1 pid = Some p1 \<and>
                    p_stock p1 = p_stock p -
                      (if p_track_stock p then line_qty pid (items_of 1 pending_db) else 0))"
    and same: "products s2 = products pending_db"
    by blast
  from low [rule_format, OF p] q obtain p1 where "products s1 1 = Some p1" "p_stock p1 = 0"
    by (auto simp: widget_def)
  with c v same h1 h2 p show ?thesis
    by (simp add: widget_def)
qed

text \<open>
  C8. \<open>void_sale\<close> on a sale whose status is \<open>voided\<close> raises the
  ``already voided'' \<open>ValueError\<close>; the view answers 400 and returns the database
  unchanged, so no stock is restored. After a void that succeeded, any further void of the
  same sale is rejected in this way: a sale is voided at most once.
\<close>

theorem void_sale_twice_rejected:
  "(s_status self = Voided \<longrightarrow>
      void_sale now usr reason sid self s = Inl (ValueError ''Sale is already voided'')) \<and>
   (sales s sid = Some self \<and> s_status self = Voided \<longrightarrow>
      void now u reason sid s = (BadRequest (InvalidState ''Sale is already voided''), s)) \<and>
   (void now u reason sid s = (Ok200, s') \<longrightarrow>
      void now' u' reason' sid s' = (BadRequest (InvalidState ''Sale is already voided''), s'))"
proof (intro conjI impI)
  show "void_sale now usr reason sid self s = Inl (ValueError ''Sale is already voided'')"
    if "s_status self = Voided"
    using that by (simp add: void_sale_def)
  show "void now u reason sid s = (BadRequest (InvalidState ''Sale is already voided''), s)"
    if "sales s sid = Some self \<and> s_status self = Voided"
    using that by (simp add: void_def void_sale_def)
  show "void now' u' reason' sid s' = (BadRequest (InvalidState ''Sale is already voided''), s')"
    if ok: "void now u reason sid s = (Ok200, s')"
  proof -
    from ok obtain row where "sales s' sid = Some row" "s_status row = Voided"
      by (auto simp: void_def void_sale_def update_sale_row_def
          split: option.splits sum.splits error.splits if_splits)
    then show ?thesis by (simp add: void_def void_sale_def)
  qed
qed


text \<open>
  C8 on the example: the first void of sale 1 is answered 200, the second 400, and the
  second leaves the database as the first void left it.
\<close>

theorem void_sale_twice_witness:
  "fst (void 6 cashier ''mistake'' 1 pending_db) = Ok200 \<and>
   void 8 cashier ''again'' 1 (snd (void 6 cashier ''mistake'' 1 pending_db)) =
     (BadRequest (InvalidState ''Sale is already voided''),
      snd (void 6 cashier ''mistake'' 1 pending_db))"
proof -
  have ok: "fst (void 6 cashier ''mistake'' 1 pending_db) = Ok200"
    by code_simp
  then have "void 6 cashier ''mistake'' 1 pending_db =
               (Ok200, snd (void 6 cashier ''mistake'' 1 pending_db))"
    by (simp add: prod_eq_iff)
  with void_sale_twice_rejected
         [where now = 6 and u = cashier and reason = "''mistake''" and sid = 1
            and s = pending_db and s' = "snd (void 6 cashier ''mistake'' 1 pending_db)"
            and now' = 8 and u' = cashier and reason' = "''again''"]
  show ?thesis using ok by blast
qed

section \<open>The sale-creation flow\<close>










text \<open>
  C2. A retail sale of 80 paid with 79.99 is answered with 400 ``insufficient payment'',
  yet the database returned holds the customer, the pending sale, its line item and its
  payment, none of which existed before: the early return leaves the atomic block
  normally, so nothing is rolled back. Likewise a request whose second line cannot be
  sold is answered with 400 and leaves the pending sale and its first line behind.
\<close>

theorem rejected_sale_keeps_rows:
  "fst (create_sale 5 cashier (retail_order (7999 / 100)) shop_db) = BadRequest InsufficientPayment \<and>
   map_option s_status (sales (snd (create_sale 5 cashier (retail_order (7999 / 100)) shop_db)) 1) =
     Some Pending \<and>
   map si_product (sale_items (snd (create_sale 5 cashier (retail_order (7999 / 100)) shop_db))) = [1] \<and>
   map (pay_amount \<circ> snd) (payments (snd (create_sale 5 cashier (retail_order (7999 / 100)) shop_db))) =
     [7999 / 100] \<and>
   map (c_phone \<circ> snd) (customers (snd (create_sale 5 cashier (retail_order (7999 / 100)) shop_db))) =
     [''0200''] \<and>
   fst (create_sale 5 cashier (order_of [1, 5] 80) shop_db) = BadRequest (CannotBeSold ''W-1'') \<and>
   map_option s_status (sales (snd (create_sale 5 cashier (order_of [1, 5] 80) shop_db)) 1) =
     Some Pending \<and>
   map si_quantity (sale_items (snd (create_sale 5 cashier (order_of [1, 5] 80) shop_db))) = [1] \<and>
   sales shop_db 1 = None \<and> sale_items shop_db = [] \<and> payments shop_db = [] \<and>
   customers shop_db = []"
  by code_simp

section \<open>Stock adjustment\<close>

text \<open>
  C4. \<open>adjust_stock\<close> on a tracked product with stock 3 and a change of -5 does not
  fail: it stores stock -2 and appends an adjustment from 3 to -2. The sale flow reaches
  such a call: two lines of 2 units each pass \<open>can_sell\<close> against the stock of 3, and
  completing the sale records the stocks 1 and -1.
\<close>

theorem adjust_stock_goes_negative:
  "p_track_stock widget \<and> products shop_db 1 = Some widget \<and> p_stock widget + (- 5) < 0 \<and>
   (case adjust_stock 1 widget (- 5) ''correction'' (Some 7) shop_db of
      Inl e \<Rightarrow> False
    | Inr (self', s') \<Rightarrow>
        p_stock self' = - 2 \<and> map_option p_stock (products s' 1) = Some (- 2) \<and>
        map ia_old_stock (adjustments s') = [3] \<and> map ia_new_stock (adjustments s') = [- 2]) \<and>
   can_sell widget 2 \<and>
   map_option s_status (sales (snd (create_sale 5 cashier (order_of [2, 2] 320) shop_db)) 1) =
     Some Completed \<and>
   map_option p_stock (products (snd (create_sale 5 cashier (order_of [2, 2] 320) shop_db)) 1) =
     Some (- 1) \<and>
   map ia_new_stock (adjustments (snd (create_sale 5 cashier (order_of [2, 2] 320) shop_db))) =
     [1, - 1]"
  by code_simp

section \<open>Invoices\<close>

text \<open>
  C5. Cancelling an unpaid invoice is accepted, but the status recompute inside the
  cancelling save overwrites the \<open>cancelled\<close> the view has just set: the stored status
  is \<open>unpaid\<close> before the due date and \<open>overdue\<close> after it.
\<close>

theorem cancel_is_overwritten:
  "inv_amount_paid open_invoice = 0 \<and>
   fst (invoice_cancel 2026 110 True 1 invoice_db) = Redirect (Some (InvoiceCancelled ''INV-2026-0001'')) \<and>
   map (inv_payment_status \<circ> snd) (invoices (snd (invoice_cancel 2026 110 True 1 invoice_db))) = [''unpaid''] \<and>
   map (inv_payment_status \<circ> snd) (invoices (snd (invoice_cancel 2026 140 True 1 invoice_db))) = [''overdue'']"
  by code_simp

text \<open>
  C7. The first number of a year is INV-2026-0001, and after 9999 the next creation
  stores INV-2026-10000. Once the year holds the numbers 9999 and 10000, the greatest
  stored string is still the one ending in 9999, so the next generated number is
  INV-2026-10000 again, a number that is already stored, and not 10001: saving a new
  invoice then fails on the unique column.
\<close>

theorem invoice_number_repeats_after_9999:
  "generate_invoice_number 2026 empty_db = Inr ''INV-2026-0001'' \<and>
   generate_invoice_number 2026 full_year_db = Inr ''INV-2026-10000'' \<and>
   map_sum id (map (inv_invoice_number \<circ> snd) \<circ> invoices \<circ> snd)
     (invoice_save 2026 110 None new_invoice full_year_db) =
     Inr (map (inv_invoice_number \<circ> snd) (invoices busy_year_db)) \<and>
   generate_invoice_number 2026 busy_year_db = Inr ''INV-2026-10000'' \<and>
   ''INV-2026-10000'' \<in> set (map (inv_invoice_number \<circ> snd) (invoices busy_year_db)) \<and>
   (case invoice_save 2026 110 None new_invoice busy_year_db of
      Inl e \<Rightarrow> e = IntegrityError
    | Inr r \<Rightarrow> False)"
  by code_simp


lemma linked_total_append:
  "linked_total iid (s\<lparr>invoice_payments := invoice_payments s @ [l]\<rparr>) =
     linked_total iid s + (if ip_invoice l = iid then ip_amount l else 0)"
  by (simp add: linked_total_def)




section \<open>Coupons\<close>

text \<open>
  C10. Without a cart total, the answer of \<open>is_valid\<close> does not depend on
  \<open>min_purchase\<close>; with a cart total it is the same answer unless the coupon passes
  every other check and the total is below \<open>min_purchase\<close>, which is then the reason
  of the rejection. A coupon with minimum purchase 50 is valid without a cart total and
  rejected for a cart total of 40.
\<close>

theorem is_valid_min_purchase:
  "is_valid now c None = is_valid now (c\<lparr>cp_min_purchase := m\<rparr>) None \<and>
   is_valid now c (Some t) =
     (if fst (is_valid now c None) \<and> t < cp_min_purchase c
      then (False, ''Minimum purchase required'') else is_valid now c None) \<and>
   0 < cp_min_purchase spring_coupon \<and>
   is_valid 15 spring_coupon None = (True, ''Valid'') \<and>
   is_valid 15 spring_coupon (Some 40) = (False, ''Minimum purchase required'')"
proof -
  have "is_valid now c None = is_valid now (c\<lparr>cp_min_purchase := m\<rparr>) None"
    by (simp add: is_valid_def split: option.splits)
  moreover have "is_valid now c (Some t) =
     (if fst (is_valid now c None) \<and> t < cp_min_purchase c
      then (False, ''Minimum purchase required'') else is_valid now c None)"
    by (simp add: is_valid_def split: option.splits)
  moreover have "0 < cp_min_purchase spring_coupon \<and>
     is_valid 15 spring_coupon None = (True, ''Valid'') \<and>
     is_valid 15 spring_coupon (Some 40) = (False, ''Minimum purchase required'')"
    by (simp add: is_valid_def spring_coupon_def)
  ultimately show ?thesis by blast
qed

text \<open>
  C10 on the example coupon, whose minimum purchase is 50.
\<close>

theorem is_valid_min_purchase_witness:
  "is_valid 15 spring_coupon None = is_valid 15 (spring_coupon\<lparr>cp_min_purchase := 0\<rparr>) None \<and>
   is_valid 15 spring_coupon (Some 40) = (False, ''Minimum purchase required'') \<and>
   is_valid 15 spring_coupon (Some 50) = (True, ''Valid'')"
  using is_valid_min_purchase [of 15 spring_coupon 0 40]
        is_valid_min_purchase [of 15 spring_coupon 0 50]
  by (simp add: spring_coupon_def)

end
